theory Spec2Isabelle
  imports Main "HOL-Library.Word"
begin

section \<open>JavaScript values and string operations used by the handlers\<close>

text \<open>
  The handlers read JSON claims, HTTP headers and query parameters. The values they can
  hold are modelled by \<open>jsval\<close>: \<open>Undefined\<close> (a missing property), \<open>Null\<close>
  (JSON null, or what \<open>Headers.get\<close> and \<open>URLSearchParams.get\<close> return for a missing
  entry) and \<open>Str\<close> (a string). The identity claims the code reads (sub, user_id, email,
  given_name, family_name, user_name) are strings in the provider's tokens; numbers,
  booleans and objects in those positions are outside the model.
  A character of a string is a UTF-16 code unit below 256 (the Latin-1 range); strings
  with other code units are outside the model. Numbers are integers, as the times and
  durations of the handlers are.
\<close>

datatype jsval = Undefined | Null | Str string

text \<open>Truthiness as used by \<open>!x\<close>, \<open>x || y\<close>, \<open>x && y\<close> and \<open>x ? a : b\<close>:
  undefined, null and the empty string are falsy.\<close>

fun truthy :: "jsval \<Rightarrow> bool" where
  "truthy (Str s) = (s \<noteq> [])"
| "truthy Undefined = False"
| "truthy Null = False"

text \<open>\<open>a || b\<close>.\<close>

definition js_or :: "jsval \<Rightarrow> jsval \<Rightarrow> jsval" where
  "js_or a b = (if truthy a then a else b)"

text \<open>String conversion as done by a template literal \<open>`${v}`\<close>.\<close>

fun toString :: "jsval \<Rightarrow> string" where
  "toString (Str s) = s"
| "toString Undefined = ''undefined''"
| "toString Null = ''null''"

text \<open>\<open>s.startsWith(p)\<close> and \<open>s.includes(c)\<close> for a one-character search string.\<close>

definition startsWith :: "string \<Rightarrow> string \<Rightarrow> bool" where
  "startsWith s p = (take (length p) s = p)"

definition includesChar :: "string \<Rightarrow> char \<Rightarrow> bool" where
  "includesChar s c = (c \<in> set s)"

text \<open>\<open>s.split(c)\<close> for a one-character separator: the pieces between the occurrences
  of \<open>c\<close>; the result is never empty.\<close>

fun split :: "char \<Rightarrow> string \<Rightarrow> string list" where
  "split c [] = [[]]"
| "split c (x # xs) =
     (if x = c then [] # split c xs
      else (case split c xs of p # ps \<Rightarrow> (x # p) # ps | [] \<Rightarrow> [[x]]))"

text \<open>\<open>s.trim()\<close>: white space and line terminators removed at both ends. Below 256
  these are tab, line feed, vertical tab, form feed, carriage return, space and the
  no-break space U+00A0.\<close>

definition isWhiteSpace :: "char \<Rightarrow> bool" where
  "isWhiteSpace c =
     (c \<in> {CHR 0x09, CHR 0x0A, CHR 0x0B, CHR 0x0C, CHR 0x0D, CHR '' '', CHR 0xA0})"

definition trim :: "string \<Rightarrow> string" where
  "trim s = rev (dropWhile isWhiteSpace (rev (dropWhile isWhiteSpace s)))"

text \<open>\<open>xs.join(sep)\<close>.\<close>

fun join :: "string \<Rightarrow> string list \<Rightarrow> string" where
  "join sep [] = []"
| "join sep [x] = x"
| "join sep (x # y # ys) = x @ sep @ join sep (y # ys)"

text \<open>
  \<open>new Date(t)\<close> for a number of milliseconds: a time value beyond 8.64e15 in
  either direction gives an Invalid Date.
\<close>

datatype date = Date int | InvalidDate

definition maxDate :: int where
  "maxDate = 8640000000000000"

definition newDate :: "int \<Rightarrow> date" where
  "newDate t = (if - maxDate \<le> t \<and> t \<le> maxDate then Date t else InvalidDate)"

section \<open>The Session Gate (middleware.ts)\<close>

text \<open>
  What the middleware reads of a request: the path, the origin of the request URL (the
  base of \<open>new URL('/login', request.url)\<close>), the Authorization header and the value of
  the cookie \<open>better-auth.session_token\<close> (\<open>Undefined\<close> when the cookie is not sent).
  \<open>xsuaa_enabled\<close> is the environment variable XSUAA_ENABLED.
\<close>

record mw_request =
  pathname :: string
  origin :: string
  authorization :: jsval
  sessionCookie :: jsval

record url =
  url_origin :: string
  url_path :: string
  url_searchParams :: "(string \<times> string) list"

datatype mw_response =
    Next
  | NextWithHeader string string
  | MwRedirect url

definition publicRoutes :: "string list" where
  "publicRoutes = [''/'', ''/login'', ''/signup'', ''/api/auth'', ''/api/health'', ''/api/me'']"

text \<open>The first test of the middleware: framework and static paths.\<close>

definition isStaticPath :: "string \<Rightarrow> bool" where
  "isStaticPath p =
     (startsWith p ''/_next'' \<or> startsWith p ''/static'' \<or> includesChar p CHR ''.'' \<or>
      p = ''/favicon.ico'')"

definition isPublicRoute :: "string \<Rightarrow> bool" where
  "isPublicRoute p =
     list_ex (\<lambda>route. p = route \<or> startsWith p (route @ ''/'')) publicRoutes"

definition middleware :: "string option \<Rightarrow> mw_request \<Rightarrow> mw_response" where
  "middleware xsuaa_enabled request =
     (let p = pathname request in
      if isStaticPath p then Next
      else if xsuaa_enabled = Some ''true'' \<and> truthy (authorization request) \<and>
              startsWith p ''/api/''
        then NextWithHeader ''x-xsuaa-token'' (toString (authorization request))
      else if isPublicRoute p then Next
      else if \<not> truthy (sessionCookie request)
        then MwRedirect \<lparr>url_origin = origin request, url_path = ''/login'',
                          url_searchParams = [(''callbackUrl'', p)]\<rparr>
      else Next)"

text \<open>A response that lets the request through, with or without an added header.\<close>

fun passesThrough :: "mw_response \<Rightarrow> bool" where
  "passesThrough Next = True"
| "passesThrough (NextWithHeader k v) = True"
| "passesThrough (MwRedirect u) = False"

section \<open>The persistent store (lib/db/schema.ts)\<close>

text \<open>
  The tables the handlers touch, with the columns of the schema. A nullable column is an
  option. Times are milliseconds since the epoch, the precision of a JavaScript Date.
  The field names carry the table's initial, as one theory cannot declare a field name
  twice. The verifications table is not touched by any handler modelled here.
\<close>

type_synonym time = int

record user =
  u_id :: string
  u_name :: string
  u_email :: string
  u_emailVerified :: bool
  u_image :: "string option"
  u_xsuaaSubject :: "string option"
  u_createdAt :: time
  u_updatedAt :: time

record session =
  s_id :: string
  s_userId :: string
  s_token :: string
  s_expiresAt :: time
  s_ipAddress :: "string option"
  s_userAgent :: "string option"
  s_createdAt :: time
  s_updatedAt :: time

record account =
  a_id :: string
  a_userId :: string
  a_accountId :: string
  a_providerId :: string
  a_accessToken :: "string option"
  a_refreshToken :: "string option"
  a_accessTokenExpiresAt :: "time option"
  a_refreshTokenExpiresAt :: "time option"
  a_scope :: "string option"
  a_idToken :: "string option"
  a_password :: "string option"
  a_createdAt :: time
  a_updatedAt :: time

record store =
  users :: "user list"
  sessions :: "session list"
  accounts :: "account list"

section \<open>The store interface (drizzle-orm over postgres.js)\<close>

text \<open>
  The handlers reach the store through three kinds of statement: a select of the first
  row whose column equals a value, an update of one column of the rows with a given id,
  and an insert of one row. A statement that the database or its driver rejects throws,
  and the handler's try block catches it. The statements run one by one, outside any
  transaction, so a statement that throws leaves the earlier writes in place.
\<close>

datatype exn =
    UndefinedValue
  | NoValuesToSet
  | NotNullViolation
  | UniqueViolation
  | ForeignKeyViolation
  | RangeError

text \<open>
  \<open>select().from(t).where(eq(col, v)).limit(1).then(rows => rows[0])\<close>. The value is
  sent as a bind parameter. lib/db/index.ts creates the postgres.js client with the ssl
  option only, so the driver rejects an undefined parameter (its UNDEFINED_VALUE error).
  A null parameter compares equal to nothing in SQL.
\<close>

fun select_eq :: "('r \<Rightarrow> string option) \<Rightarrow> jsval \<Rightarrow> 'r list \<Rightarrow> exn + 'r option" where
  "select_eq col Undefined rows = Inl UndefinedValue"
| "select_eq col Null rows = Inr None"
| "select_eq col (Str v) rows = Inr (find (\<lambda>r. col r = Some v) rows)"

text \<open>
  A JavaScript value given for a nullable text column in \<open>values\<close> or \<open>set\<close>
  (undefined leaves the column at its default, which is NULL), and for a column declared
  notNull without default.
\<close>

fun nullable :: "jsval \<Rightarrow> string option" where
  "nullable (Str s) = Some s"
| "nullable Undefined = None"
| "nullable Null = None"

fun required :: "jsval \<Rightarrow> exn + string" where
  "required (Str s) = Inr s"
| "required Undefined = Inl NotNullViolation"
| "required Null = Inl NotNullViolation"

text \<open>
  \<open>update(users).set({ xsuaaSubject }).where(eq(users.id, id))\<close>. drizzle drops
  undefined entries of \<open>set\<close> and throws when none is left. The column is unique: the
  update is rejected when it gives a row a subject that another row carries.
\<close>

definition update_xsuaaSubject :: "jsval \<Rightarrow> string \<Rightarrow> store \<Rightarrow> exn + store" where
  "update_xsuaaSubject v uid st =
     (if v = Undefined then Inl NoValuesToSet
      else if (\<exists>u \<in> set (users st). u_id u = uid) \<and> nullable v \<noteq> None \<and>
              (\<exists>u \<in> set (users st). u_id u \<noteq> uid \<and> u_xsuaaSubject u = nullable v)
        then Inl UniqueViolation
      else Inr (st\<lparr>users :=
                  map (\<lambda>u. if u_id u = uid then u\<lparr>u_xsuaaSubject := nullable v\<rparr> else u)
                      (users st)\<rparr>))"

text \<open>\<open>insert(users).values({...})\<close>, with the fields the handler gives. The image
  column is left at its default. id is the primary key; email and xsuaa_subject are
  unique (NULL subjects do not conflict).\<close>

record user_values =
  uv_id :: string
  uv_email :: string
  uv_name :: jsval
  uv_emailVerified :: bool
  uv_xsuaaSubject :: jsval
  uv_createdAt :: time
  uv_updatedAt :: time

definition user_row :: "user_values \<Rightarrow> string \<Rightarrow> user" where
  "user_row v nm =
     \<lparr>u_id = uv_id v, u_name = nm, u_email = uv_email v,
      u_emailVerified = uv_emailVerified v, u_image = None,
      u_xsuaaSubject = nullable (uv_xsuaaSubject v),
      u_createdAt = uv_createdAt v, u_updatedAt = uv_updatedAt v\<rparr>"

definition insert_user :: "user_values \<Rightarrow> store \<Rightarrow> exn + store" where
  "insert_user v st =
     (case required (uv_name v) of
        Inl e \<Rightarrow> Inl e
      | Inr nm \<Rightarrow>
          if \<exists>u \<in> set (users st).
               u_id u = uv_id v \<or> u_email u = uv_email v \<or>
               (nullable (uv_xsuaaSubject v) \<noteq> None \<and>
                u_xsuaaSubject u = nullable (uv_xsuaaSubject v))
          then Inl UniqueViolation
          else Inr (st\<lparr>users := users st @ [user_row v nm]\<rparr>))"

text \<open>\<open>insert(accounts).values({...})\<close>. A Date is sent as its ISO string, and
  \<open>toISOString\<close> of an Invalid Date throws a RangeError before anything is sent.
  account_id is notNull; id is the primary key; user_id references users.id.\<close>

record account_values =
  av_id :: string
  av_userId :: string
  av_accountId :: jsval
  av_providerId :: string
  av_accessToken :: jsval
  av_refreshToken :: jsval
  av_accessTokenExpiresAt :: date
  av_createdAt :: time
  av_updatedAt :: time

definition account_row :: "account_values \<Rightarrow> string \<Rightarrow> time \<Rightarrow> account" where
  "account_row v aid expiry =
     \<lparr>a_id = av_id v, a_userId = av_userId v, a_accountId = aid,
      a_providerId = av_providerId v,
      a_accessToken = nullable (av_accessToken v),
      a_refreshToken = nullable (av_refreshToken v),
      a_accessTokenExpiresAt = Some expiry,
      a_refreshTokenExpiresAt = None, a_scope = None, a_idToken = None, a_password = None,
      a_createdAt = av_createdAt v, a_updatedAt = av_updatedAt v\<rparr>"

definition insert_account :: "account_values \<Rightarrow> store \<Rightarrow> exn + store" where
  "insert_account v st =
     (case av_accessTokenExpiresAt v of
        InvalidDate \<Rightarrow> Inl RangeError
      | Date expiry \<Rightarrow>
         (case required (av_accountId v) of
            Inl e \<Rightarrow> Inl e
          | Inr aid \<Rightarrow>
              if \<exists>a \<in> set (accounts st). a_id a = av_id v then Inl UniqueViolation
              else if \<not> (\<exists>u \<in> set (users st). u_id u = av_userId v)
                then Inl ForeignKeyViolation
              else Inr (st\<lparr>accounts := accounts st @ [account_row v aid expiry]\<rparr>)))"

text \<open>\<open>insert(sessions).values({...})\<close>. An Invalid Date throws as for accounts.
  id is the primary key, token is unique, user_id references users.id.\<close>

record session_values =
  sn_id :: string
  sn_userId :: string
  sn_token :: string
  sn_expiresAt :: date
  sn_ipAddress :: jsval
  sn_userAgent :: jsval
  sn_createdAt :: time
  sn_updatedAt :: time

definition session_row :: "session_values \<Rightarrow> time \<Rightarrow> session" where
  "session_row v expiry =
     \<lparr>s_id = sn_id v, s_userId = sn_userId v, s_token = sn_token v,
      s_expiresAt = expiry, s_ipAddress = nullable (sn_ipAddress v),
      s_userAgent = nullable (sn_userAgent v),
      s_createdAt = sn_createdAt v, s_updatedAt = sn_updatedAt v\<rparr>"

definition insert_session :: "session_values \<Rightarrow> store \<Rightarrow> exn + store" where
  "insert_session v st =
     (case sn_expiresAt v of
        InvalidDate \<Rightarrow> Inl RangeError
      | Date expiry \<Rightarrow>
          if \<exists>x \<in> set (sessions st). s_id x = sn_id v \<or> s_token x = sn_token v
            then Inl UniqueViolation
          else if \<not> (\<exists>u \<in> set (users st). u_id u = sn_userId v)
            then Inl ForeignKeyViolation
          else Inr (st\<lparr>sessions := sessions st @ [session_row v expiry]\<rparr>))"

section \<open>The SSO endpoint (app/api/auth/xsuaa/route.ts)\<close>

subsection \<open>Identifiers\<close>

definition chars :: string where
  "chars = ''ABCDEFGHIJKLMNOPQRSTUVWXYZabcdefghijklmnopqrstuvwxyz0123456789''"

text \<open>
  \<open>generateId(length)\<close>. \<open>randomValues\<close> is the array that crypto.getRandomValues
  filled, of \<open>length\<close> bytes; each byte selects a character of \<open>chars\<close>.
\<close>

definition generateId :: "nat \<Rightarrow> 8 word list \<Rightarrow> string" where
  "generateId len randomValues =
     map (\<lambda>b. chars ! (unat b mod length chars)) (take len randomValues)"

subsection \<open>What the handler reads\<close>

text \<open>The fields of the XSUAA credentials the handler uses.\<close>

record credentials =
  clientid :: string
  clientsecret :: string
  xs_url :: string

text \<open>The decoded claims of the identity token.\<close>

record payload =
  sub :: jsval
  user_id :: jsval
  email :: jsval
  given_name :: jsval
  family_name :: jsval
  user_name :: jsval

text \<open>
  The body of a successful token response. \<open>expires_in\<close> is a number or missing.
  \<open>id_token\<close> is the result of decoding the middle segment of the identity token:
  \<open>None\<close> when the token is missing or the decoding throws.
\<close>

record tokens =
  access_token :: jsval
  refresh_token :: jsval
  expires_in :: "int option"
  id_token :: "payload option"

record token_request =
  tr_url :: string
  tr_basic_user :: string
  tr_basic_password :: string
  tr_grant_type :: string
  tr_code :: string
  tr_redirect_uri :: string

datatype token_reply =
    NetworkError
  | NotOk
  | OkBody tokens

text \<open>
  The query parameters and headers of the request (\<open>Null\<close> when missing), and what
  the handler takes from its environment: the credentials and the application URL of
  lib/env.ts, NODE_ENV, the token endpoint, the random bytes of each generateId call
  and the clock reading of each \<open>new Date()\<close> and \<open>Date.now()\<close>.
\<close>

record xsuaa_request =
  action :: jsval
  code :: jsval
  x_forwarded_for :: jsval
  x_real_ip :: jsval
  user_agent :: jsval

record env =
  xsuaaCredentials :: "credentials option"
  appUrl :: string
  nodeEnv :: "string option"
  tokenEndpoint :: "token_request \<Rightarrow> token_reply"
  rnd_userId :: "8 word list"
  rnd_accountId :: "8 word list"
  rnd_sessionToken :: "8 word list"
  rnd_sessionId :: "8 word list"
  now_user :: time
  now_account :: time
  now_session :: time
  now_sessionCreatedAt :: time
  now_sessionUpdatedAt :: time

record cookie =
  c_name :: string
  c_value :: string
  c_httpOnly :: bool
  c_secure :: bool
  c_sameSite :: string
  c_expires :: date
  c_path :: string

text \<open>
  The URL object \<open>new URL(path, base)\<close> with the search parameters set on it: the
  path on the origin of the base, as the platform resolves it.
\<close>

record new_url =
  nu_path :: string
  nu_base :: string
  nu_searchParams :: "(string \<times> string) list"

datatype xsuaa_response =
    Redirect string
  | RedirectUrl new_url
  | RedirectWithCookie string cookie
  | JsonError nat string

subsection \<open>Derivation of subject, email and name (lines 77 to 81)\<close>

definition deriveSubject :: "payload \<Rightarrow> jsval" where
  "deriveSubject p = js_or (sub p) (user_id p)"

text \<open>Both operands of \<open>||\<close> are strings when truthy, so the email is a string.\<close>

definition deriveEmail :: "payload \<Rightarrow> string" where
  "deriveEmail p =
     toString (js_or (email p) (Str (toString (deriveSubject p) @ ''@sap.xsuaa'')))"

text \<open>\<open>xs[0]\<close>.\<close>

fun first :: "string list \<Rightarrow> jsval" where
  "first [] = Undefined"
| "first (x # xs) = Str x"

definition deriveName :: "payload \<Rightarrow> jsval" where
  "deriveName p =
     (if truthy (given_name p)
        then Str (trim (toString (given_name p) @ '' '' @ toString (family_name p)))
      else js_or (user_name p) (first (split CHR ''@'' (deriveEmail p))))"

subsection \<open>Find, link or create the user (lines 83 to 146)\<close>

text \<open>\<open>tokens.expires_in || 3600\<close>: a missing or zero value gives 3600.\<close>

definition expiresInOrDefault :: "int option \<Rightarrow> int" where
  "expiresInOrDefault e = (case e of None \<Rightarrow> 3600 | Some n \<Rightarrow> if n = 0 then 3600 else n)"

definition resolveUser :: "env \<Rightarrow> tokens \<Rightarrow> payload \<Rightarrow> store \<Rightarrow> (exn + user) \<times> store" where
  "resolveUser ev tks p st =
     (let xsuaaSubject = deriveSubject p; eml = deriveEmail p; nm = deriveName p in
      case select_eq u_xsuaaSubject xsuaaSubject (users st) of
        Inl e \<Rightarrow> (Inl e, st)
      | Inr (Some usr) \<Rightarrow> (Inr usr, st)
      | Inr None \<Rightarrow>
         (case select_eq (\<lambda>u. Some (u_email u)) (Str eml) (users st) of
            Inl e \<Rightarrow> (Inl e, st)
          | Inr (Some existingByEmail) \<Rightarrow>
             (case update_xsuaaSubject xsuaaSubject (u_id existingByEmail) st of
                Inl e \<Rightarrow> (Inl e, st)
              | Inr st1 \<Rightarrow>
                  (Inr (existingByEmail\<lparr>u_xsuaaSubject := nullable xsuaaSubject\<rparr>), st1))
          | Inr None \<Rightarrow>
             (let userId = generateId 32 (rnd_userId ev); now = now_user ev in
              case insert_user
                     \<lparr>uv_id = userId, uv_email = eml, uv_name = nm, uv_emailVerified = True,
                      uv_xsuaaSubject = xsuaaSubject, uv_createdAt = now, uv_updatedAt = now\<rparr>
                     st of
                Inl e \<Rightarrow> (Inl e, st)
              | Inr st1 \<Rightarrow>
                 (case insert_account
                         \<lparr>av_id = generateId 32 (rnd_accountId ev), av_userId = userId,
                          av_accountId = xsuaaSubject, av_providerId = ''xsuaa'',
                          av_accessToken = access_token tks,
                          av_refreshToken = refresh_token tks,
                          av_accessTokenExpiresAt =
                            newDate (now_account ev +
                                     expiresInOrDefault (expires_in tks) * 1000),
                          av_createdAt = now, av_updatedAt = now\<rparr>
                         st1 of
                    Inl e \<Rightarrow> (Inl e, st1)
                  | Inr st2 \<Rightarrow>
                      (Inr \<lparr>u_id = userId, u_name = toString nm, u_email = eml,
                            u_emailVerified = True, u_image = None,
                            u_xsuaaSubject = nullable xsuaaSubject,
                            u_createdAt = now, u_updatedAt = now\<rparr>, st2)))))"

subsection \<open>Create the session (lines 148 to 163)\<close>

definition mintSession ::
  "env \<Rightarrow> xsuaa_request \<Rightarrow> user \<Rightarrow> store \<Rightarrow> (exn + string \<times> date) \<times> store" where
  "mintSession ev request usr st =
     (let sessionToken = generateId 32 (rnd_sessionToken ev);
          sessionId = generateId 32 (rnd_sessionId ev);
          expiresAt = newDate (now_session ev + 7 * 24 * 60 * 60 * 1000) in
      case insert_session
             \<lparr>sn_id = sessionId, sn_userId = u_id usr, sn_token = sessionToken,
              sn_expiresAt = expiresAt,
              sn_ipAddress = js_or (x_forwarded_for request) (x_real_ip request),
              sn_userAgent = user_agent request,
              sn_createdAt = now_sessionCreatedAt ev,
              sn_updatedAt = now_sessionUpdatedAt ev\<rparr>
             st of
        Inl e \<Rightarrow> (Inl e, st)
      | Inr st1 \<Rightarrow> (Inr (sessionToken, expiresAt), st1))"

text \<open>The reconciliation, lines 77 to 163: the user is resolved, then the session is
  created.\<close>

definition reconcile ::
  "env \<Rightarrow> xsuaa_request \<Rightarrow> tokens \<Rightarrow> payload \<Rightarrow> store \<Rightarrow> (exn + string \<times> date) \<times> store" where
  "reconcile ev request tks p st =
     (case resolveUser ev tks p st of
        (Inl e, st1) \<Rightarrow> (Inl e, st1)
      | (Inr usr, st1) \<Rightarrow> mintSession ev request usr st1)"

subsection \<open>The handler\<close>

definition tokenRequest :: "env \<Rightarrow> credentials \<Rightarrow> jsval \<Rightarrow> token_request" where
  "tokenRequest ev xsuaa cd =
     \<lparr>tr_url = xs_url xsuaa @ ''/oauth/token'',
      tr_basic_user = clientid xsuaa, tr_basic_password = clientsecret xsuaa,
      tr_grant_type = ''authorization_code'', tr_code = toString cd,
      tr_redirect_uri = appUrl ev @ ''/api/auth/xsuaa?action=callback''\<rparr>"

text \<open>
  The result is the response, the store after the request and the requests sent to the
  token endpoint. Every exception thrown in the try block ends in the redirect with
  error callback_failed.
\<close>

definition xsuaa_GET ::
  "env \<Rightarrow> xsuaa_request \<Rightarrow> store \<Rightarrow> xsuaa_response \<times> store \<times> token_request list" where
  "xsuaa_GET ev request st =
     (case xsuaaCredentials ev of
        None \<Rightarrow> (Redirect (appUrl ev @ ''/login?error=xsuaa_not_configured''), st, [])
      | Some xsuaa \<Rightarrow>
          if action request = Str ''login'' then
            (RedirectUrl \<lparr>nu_path = ''/oauth/authorize'', nu_base = xs_url xsuaa,
                          nu_searchParams =
                            [(''client_id'', clientid xsuaa),
                             (''redirect_uri'', appUrl ev @ ''/api/auth/xsuaa?action=callback''),
                             (''response_type'', ''code''),
                             (''scope'', ''openid'')]\<rparr>, st, [])
          else if action request = Str ''callback'' then
            (if \<not> truthy (code request)
               then (Redirect (appUrl ev @ ''/login?error=no_code''), st, [])
             else
               (let rq = tokenRequest ev xsuaa (code request) in
                case tokenEndpoint ev rq of
                  NetworkError \<Rightarrow>
                    (Redirect (appUrl ev @ ''/login?error=callback_failed''), st, [rq])
                | NotOk \<Rightarrow>
                    (Redirect (appUrl ev @ ''/login?error=token_exchange_failed''), st, [rq])
                | OkBody tks \<Rightarrow>
                   (case id_token tks of
                      None \<Rightarrow>
                        (Redirect (appUrl ev @ ''/login?error=callback_failed''), st, [rq])
                    | Some p \<Rightarrow>
                       (case reconcile ev request tks p st of
                          (Inl e, st1) \<Rightarrow>
                            (Redirect (appUrl ev @ ''/login?error=callback_failed''), st1, [rq])
                        | (Inr (sessionToken, expiresAt), st1) \<Rightarrow>
                            (RedirectWithCookie (appUrl ev @ ''/dashboard'')
                               \<lparr>c_name = ''better-auth.session_token'', c_value = sessionToken,
                                c_httpOnly = True, c_secure = (nodeEnv ev = Some ''production''),
                                c_sameSite = ''lax'', c_expires = expiresAt, c_path = ''/''\<rparr>,
                             st1, [rq])))))
          else (JsonError 400 ''Invalid action'', st, []))"

section \<open>The Session Resolution Endpoint (app/api/me/route.ts)\<close>

record user_view =
  v_id :: string
  v_name :: string
  v_email :: string
  v_emailVerified :: bool
  v_xsuaaSubject :: "string option"
  v_image :: "string option"

record session_view =
  sv_id :: string
  sv_expiresAt :: time

datatype me_response =
    MeError nat string
  | MeOk user_view session_view

text \<open>
  The handler of /api/me. \<open>now\<close> is the clock reading of \<open>new Date()\<close> in the expiry
  test, \<open>cookie\<close> the value of the session cookie. A query
  \<open>select().from(t).where(eq(col, v)).limit(1).then(rows => rows[0])\<close> yields the first
  matching row, or nothing. The store is always reachable in the model, so the
  handler's catch branch (status 500) is not reached.
\<close>

definition me_GET :: "time \<Rightarrow> store \<Rightarrow> jsval \<Rightarrow> me_response" where
  "me_GET now st cookie =
     (if \<not> truthy cookie then MeError 401 ''No session''
      else case find (\<lambda>s. s_token s = toString cookie) (sessions st) of
        None \<Rightarrow> MeError 401 ''Invalid session''
      | Some sess \<Rightarrow>
          if s_expiresAt sess < now then MeError 401 ''Session expired''
          else case find (\<lambda>u. u_id u = s_userId sess) (users st) of
            None \<Rightarrow> MeError 401 ''User not found''
          | Some usr \<Rightarrow>
              MeOk \<lparr>v_id = u_id usr, v_name = u_name usr, v_email = u_email usr,
                    v_emailVerified = u_emailVerified usr,
                    v_xsuaaSubject = u_xsuaaSubject usr, v_image = u_image usr\<rparr>
                   \<lparr>sv_id = s_id sess, sv_expiresAt = s_expiresAt sess\<rparr>)"

text \<open>A store with one user and one session of that user, expiring at \<open>e\<close>.\<close>

definition alice :: user where
  "alice = \<lparr>u_id = ''u1'', u_name = ''Alice'', u_email = ''alice@example.com'',
            u_emailVerified = False, u_image = None, u_xsuaaSubject = None,
            u_createdAt = 0, u_updatedAt = 0\<rparr>"

definition session_until :: "time \<Rightarrow> session" where
  "session_until e = \<lparr>s_id = ''s1'', s_userId = ''u1'', s_token = ''tok'', s_expiresAt = e,
                       s_ipAddress = None, s_userAgent = None, s_createdAt = 0, s_updatedAt = 0\<rparr>"

definition store_until :: "time \<Rightarrow> store" where
  "store_until e = \<lparr>users = [alice], sessions = [session_until e], accounts = []\<rparr>"

section \<open>The name of a validated token (lib/xsuaa/security-context.ts)\<close>

text \<open>
  Lines 27 to 29 of validateXsuaaToken, the other place where a display name is built
  from a given and a family name: the arguments are what getGivenName and getFamilyName
  return.
\<close>

definition fullName :: "jsval \<Rightarrow> jsval \<Rightarrow> jsval" where
  "fullName g f =
     (let givenName = js_or g (Str []); familyName = js_or f (Str []) in
      js_or (Str (join '' '' (map toString (filter truthy [givenName, familyName]))))
            Undefined)"

section \<open>Example data\<close>

definition creds0 :: credentials where
  "creds0 = \<lparr>clientid = ''cid'', clientsecret = ''secret'', xs_url = ''https://idp.example''\<rparr>"

definition claims_of :: "jsval \<Rightarrow> jsval \<Rightarrow> payload" where
  "claims_of s e = \<lparr>sub = s, user_id = Undefined, email = e, given_name = Undefined,
                    family_name = Undefined, user_name = Undefined\<rparr>"

definition null_claims :: payload where
  "null_claims = \<lparr>sub = Null, user_id = Null, email = Undefined, given_name = Undefined,
                   family_name = Undefined, user_name = Undefined\<rparr>"

definition tokens_of :: "payload \<Rightarrow> tokens" where
  "tokens_of p = \<lparr>access_token = Str ''at'', refresh_token = Str ''rt'', expires_in = None,
                  id_token = Some p\<rparr>"

definition env_of :: "credentials option \<Rightarrow> payload \<Rightarrow> env" where
  "env_of c p =
     \<lparr>xsuaaCredentials = c, appUrl = ''https://app'', nodeEnv = Some ''production'',
      tokenEndpoint = (\<lambda>rq. OkBody (tokens_of p)),
      rnd_userId = replicate 32 0, rnd_accountId = replicate 32 1,
      rnd_sessionToken = replicate 32 2, rnd_sessionId = replicate 32 3,
      now_user = 1000, now_account = 1001, now_session = 1002,
      now_sessionCreatedAt = 1003, now_sessionUpdatedAt = 1004\<rparr>"

definition callback_request :: xsuaa_request where
  "callback_request = \<lparr>action = Str ''callback'', code = Str ''abc'', x_forwarded_for = Null,
                        x_real_ip = Null, user_agent = Str ''test''\<rparr>"

definition local_store :: store where
  "local_store = \<lparr>users = [alice], sessions = [], accounts = []\<rparr>"

definition bob :: user where
  "bob = \<lparr>u_id = ''u2'', u_name = ''Bob'', u_email = ''bob@example.com'',
          u_emailVerified = True, u_image = None, u_xsuaaSubject = Some ''sap-7'',
          u_createdAt = 10, u_updatedAt = 20\<rparr>"

definition team_store :: store where
  "team_store = \<lparr>users = [bob, alice], sessions = [session_until 5000], accounts = []\<rparr>"

section \<open>Properties of the Session Gate\<close>

lemma startsWith_code [simp]:
  "startsWith s [] = True"
  "startsWith [] (y # ys) = False"
  "startsWith (x # xs) (y # ys) = (x = y \<and> startsWith xs ys)"
  by (auto simp: startsWith_def)

text \<open>
  C8. A request whose path starts with /_next or /static, contains a dot, or is
  /favicon.ico passes through whatever the cookie, the headers and the environment are,
  also when the path is under no public route.
\<close>

theorem static_path_passes:
  assumes "startsWith (pathname request) ''/_next'' \<or> startsWith (pathname request) ''/static''
           \<or> includesChar (pathname request) CHR ''.'' \<or> pathname request = ''/favicon.ico''"
  shows "middleware xsuaa_enabled request = Next"
  using assms by (simp add: middleware_def isStaticPath_def)

theorem static_path_passes_witness:
  "includesChar ''/dashboard/report.pdf'' CHR ''.'' \<and> \<not> isPublicRoute ''/dashboard/report.pdf'' \<and>
   middleware None \<lparr>pathname = ''/dashboard/report.pdf'', origin = ''https://app'',
                    authorization = Null, sessionCookie = Undefined\<rparr> = Next"
proof -
  have inc: "includesChar ''/dashboard/report.pdf'' CHR ''.''"
    by (simp add: includesChar_def)
  have np: "\<not> isPublicRoute ''/dashboard/report.pdf''"
    by (simp add: isPublicRoute_def publicRoutes_def)
  have "middleware None \<lparr>pathname = ''/dashboard/report.pdf'', origin = ''https://app'',
                         authorization = Null, sessionCookie = Undefined\<rparr> = Next"
    by (rule static_path_passes) (simp add: inc)
  with inc np show ?thesis by simp
qed

text \<open>
  C7 as stated fails: a path that is under no public route but contains a dot passes
  through without a session cookie.
\<close>

theorem gate_nonpublic_no_cookie_passes:
  "\<not> isPublicRoute ''/reports/2024.csv'' \<and>
   \<not> truthy (sessionCookie \<lparr>pathname = ''/reports/2024.csv'', origin = ''https://app'',
                              authorization = Null, sessionCookie = Undefined\<rparr>) \<and>
   middleware None \<lparr>pathname = ''/reports/2024.csv'', origin = ''https://app'',
                    authorization = Null, sessionCookie = Undefined\<rparr> = Next"
  by (simp add: isPublicRoute_def publicRoutes_def middleware_def isStaticPath_def
      includesChar_def)

text \<open>
  C7, amended. A request on a public route always passes through. A request whose path
  is not public, is not a static path (no /_next or /static prefix, no dot) and is not
  an /api/ request carrying an Authorization header while XSUAA_ENABLED is 'true', passes
  through when the session cookie has a non-empty value, whatever the value, and is
  redirected to /login with the original path as callbackUrl when the cookie is absent or
  empty. The gate is a function of the request and the environment variable alone: it
  takes no store, so no branch can look anything up.
\<close>

theorem session_gate:
  "(isPublicRoute (pathname request) \<longrightarrow> passesThrough (middleware xsuaa_enabled request)) \<and>
   (\<not> isPublicRoute (pathname request) \<and> \<not> isStaticPath (pathname request) \<and>
    \<not> (xsuaa_enabled = Some ''true'' \<and> truthy (authorization request) \<and>
       startsWith (pathname request) ''/api/'') \<longrightarrow>
      (truthy (sessionCookie request) \<longrightarrow> middleware xsuaa_enabled request = Next) \<and>
      (\<not> truthy (sessionCookie request) \<longrightarrow>
         middleware xsuaa_enabled request =
           MwRedirect \<lparr>url_origin = origin request, url_path = ''/login'',
                       url_searchParams = [(''callbackUrl'', pathname request)]\<rparr>))"
  by (simp add: middleware_def Let_def)

theorem session_gate_witness:
  "isPublicRoute ''/login'' \<and>
   passesThrough (middleware None \<lparr>pathname = ''/login'', origin = ''https://app'',
                                  authorization = Null, sessionCookie = Undefined\<rparr>) \<and>
   \<not> isPublicRoute ''/dashboard'' \<and> \<not> isStaticPath ''/dashboard'' \<and>
   middleware None \<lparr>pathname = ''/dashboard'', origin = ''https://app'',
                    authorization = Null, sessionCookie = Str ''stale''\<rparr> = Next \<and>
   middleware None \<lparr>pathname = ''/dashboard'', origin = ''https://app'',
                    authorization = Null, sessionCookie = Undefined\<rparr> =
     MwRedirect \<lparr>url_origin = ''https://app'', url_path = ''/login'',
                 url_searchParams = [(''callbackUrl'', ''/dashboard'')]\<rparr>"
proof -
  have pub: "isPublicRoute ''/login''"
    by (simp add: isPublicRoute_def publicRoutes_def)
  have np: "\<not> isPublicRoute ''/dashboard''"
    by (simp add: isPublicRoute_def publicRoutes_def)
  have ns: "\<not> isStaticPath ''/dashboard''"
    by (simp add: isStaticPath_def includesChar_def)
  show ?thesis
    using pub np ns
      session_gate [of "\<lparr>pathname = ''/login'', origin = ''https://app'',
                         authorization = Null, sessionCookie = Undefined\<rparr>" None]
      session_gate [of "\<lparr>pathname = ''/dashboard'', origin = ''https://app'',
                         authorization = Null, sessionCookie = Str ''stale''\<rparr>" None]
      session_gate [of "\<lparr>pathname = ''/dashboard'', origin = ''https://app'',
                         authorization = Null, sessionCookie = Undefined\<rparr>" None]
    by simp
qed

section \<open>Properties of the Session Resolution Endpoint\<close>

text \<open>
  C4 as stated fails at the boundary: a session whose expiry equals the current time is
  not expired, and the user is returned.
\<close>

theorem session_expiring_now_is_valid:
  "me_GET 5000 (store_until 5000) (Str ''tok'') =
     MeOk \<lparr>v_id = ''u1'', v_name = ''Alice'', v_email = ''alice@example.com'',
           v_emailVerified = False, v_xsuaaSubject = None, v_image = None\<rparr>
          \<lparr>sv_id = ''s1'', sv_expiresAt = 5000\<rparr>"
  by (simp add: me_GET_def store_until_def session_until_def alice_def)

text \<open>
  C4, amended. For a session found by its token, the lookup fails with 'Session expired'
  exactly when the expiry is strictly before the current time; the session is valid
  exactly when the current time is at most the expiry. So an expiry one second in the
  past gives 'Session expired', and an expiry one second ahead, or equal to the current
  time, does not.
\<close>

theorem session_expiry_boundary:
  assumes "truthy cookie"
      and "find (\<lambda>s. s_token s = toString cookie) (sessions st) = Some sess"
      and "find (\<lambda>u. u_id u = s_userId sess) (users st) = Some usr"
      and "ok = MeOk \<lparr>v_id = u_id usr, v_name = u_name usr, v_email = u_email usr,
                      v_emailVerified = u_emailVerified usr,
                      v_xsuaaSubject = u_xsuaaSubject usr, v_image = u_image usr\<rparr>
                     \<lparr>sv_id = s_id sess, sv_expiresAt = s_expiresAt sess\<rparr>"
  shows "(me_GET now st cookie = MeError 401 ''Session expired'') = (s_expiresAt sess < now) \<and>
         (me_GET now st cookie = ok) = (now \<le> s_expiresAt sess) \<and>
         me_GET (s_expiresAt sess + 1000) st cookie = MeError 401 ''Session expired'' \<and>
         me_GET (s_expiresAt sess - 1000) st cookie = ok \<and>
         me_GET (s_expiresAt sess) st cookie = ok"
  using assms by (auto simp: me_GET_def)

theorem session_expiry_boundary_witness:
  "me_GET 6000 (store_until 5000) (Str ''tok'') = MeError 401 ''Session expired'' \<and>
   me_GET 4000 (store_until 5000) (Str ''tok'') =
     MeOk \<lparr>v_id = ''u1'', v_name = ''Alice'', v_email = ''alice@example.com'',
           v_emailVerified = False, v_xsuaaSubject = None, v_image = None\<rparr>
          \<lparr>sv_id = ''s1'', sv_expiresAt = 5000\<rparr>"
proof -
  have c: "truthy (Str ''tok'')" by simp
  have s: "find (\<lambda>s. s_token s = toString (Str ''tok'')) (sessions (store_until 5000))
             = Some (session_until 5000)"
    by (simp add: store_until_def session_until_def)
  have u: "find (\<lambda>u. u_id u = s_userId (session_until 5000)) (users (store_until 5000))
             = Some alice"
    by (simp add: store_until_def session_until_def alice_def)
  show ?thesis
    using session_expiry_boundary [OF c s u refl, of 0]
    by (simp add: session_until_def alice_def)
qed

section \<open>Properties of the SSO endpoint\<close>

subsection \<open>Derivation\<close>

lemma split_nonempty: "split c s \<noteq> []"
  by (induction s) (auto split: list.splits)

lemma first_split: "first (split c s) = Str (takeWhile (\<lambda>x. x \<noteq> c) s)"
proof (induction s)
  case Nil
  then show ?case by simp
next
  case (Cons x xs)
  then show ?case
    using split_nonempty [of c xs] by (cases "split c xs") auto
qed

lemma truthy_Str: "truthy v \<Longrightarrow> \<exists>s. v = Str s \<and> s \<noteq> []"
  by (cases v) auto

lemma deriveEmail_cases:
  "deriveEmail p =
     (if truthy (email p) then toString (email p)
      else toString (deriveSubject p) @ ''@sap.xsuaa'')"
  by (simp add: deriveEmail_def js_or_def)

lemma deriveName_without_given:
  "\<not> truthy (given_name p) \<Longrightarrow>
   deriveName p =
     (if truthy (user_name p) then user_name p
      else Str (takeWhile (\<lambda>c. c \<noteq> CHR ''@'') (deriveEmail p)))"
  by (simp add: deriveName_def js_or_def first_split)

text \<open>
  C6. With the subject s1, the given name Ann and no family name, the derived name is
  'Ann undefined': the template renders the missing family name as the text undefined,
  and the trim that follows finds no white space to remove. The given name, a space and
  an empty family name, trimmed, is 'Ann', which is also what validateXsuaaToken builds
  from the same two names. With both names present the derivation is the one of the
  claim: ' Ann' and 'Lee ' give 'Ann Lee'. The email of the payload is the subject
  followed by @sap.xsuaa.
\<close>

theorem given_name_without_family_name:
  "deriveName \<lparr>sub = Str ''s1'', user_id = Undefined, email = Undefined,
               given_name = Str ''Ann'', family_name = Undefined, user_name = Undefined\<rparr>
     = Str ''Ann undefined'' \<and>
   trim (''Ann'' @ '' '' @ []) = ''Ann'' \<and>
   fullName (Str ''Ann'') Undefined = Str ''Ann'' \<and>
   deriveName \<lparr>sub = Str ''s1'', user_id = Undefined, email = Undefined,
               given_name = Str '' Ann'', family_name = Str ''Lee '', user_name = Undefined\<rparr>
     = Str ''Ann Lee'' \<and>
   deriveEmail \<lparr>sub = Str ''s1'', user_id = Undefined, email = Undefined,
                given_name = Str ''Ann'', family_name = Undefined, user_name = Undefined\<rparr>
     = ''s1@sap.xsuaa''"
  by (simp add: deriveName_def deriveEmail_def deriveSubject_def fullName_def js_or_def
      trim_def isWhiteSpace_def)

subsection \<open>The three ways to resolve the user\<close>

lemma resolveUser_undefined:
  "deriveSubject p = Undefined \<Longrightarrow> resolveUser ev tks p st = (Inl UndefinedValue, st)"
  by (simp add: resolveUser_def)

lemma resolveUser_found:
  "select_eq u_xsuaaSubject (deriveSubject p) (users st) = Inr (Some usr) \<Longrightarrow>
   resolveUser ev tks p st = (Inr usr, st)"
  by (simp add: resolveUser_def)

lemma select_None_no_subject:
  assumes "select_eq u_xsuaaSubject v us = Inr None"
  shows "nullable v = None \<or> (\<forall>u \<in> set us. u_xsuaaSubject u \<noteq> nullable v)"
  using assms by (cases v) (auto simp: find_None_iff)

lemma update_link_ok:
  assumes "select_eq u_xsuaaSubject v (users st) = Inr None"
  shows "update_xsuaaSubject v uid st =
           Inr (st\<lparr>users := map (\<lambda>u. if u_id u = uid then u\<lparr>u_xsuaaSubject := nullable v\<rparr> else u)
                                 (users st)\<rparr>)"
proof -
  have "v \<noteq> Undefined" using assms by auto
  moreover have "nullable v = None \<or> (\<forall>u \<in> set (users st). u_xsuaaSubject u \<noteq> nullable v)"
    using assms by (rule select_None_no_subject)
  ultimately show ?thesis by (auto simp: update_xsuaaSubject_def)
qed

lemma map_update_distinct:
  assumes "distinct (map key xs)" and "i < length xs" and "key (xs ! i) = k"
  shows "map (\<lambda>x. if key x = k then f x else x) xs = xs[i := f (xs ! i)]"
proof (rule nth_equalityI)
  show "length (map (\<lambda>x. if key x = k then f x else x) xs) = length (xs[i := f (xs ! i)])"
    by simp
next
  fix j assume "j < length (map (\<lambda>x. if key x = k then f x else x) xs)"
  then have j: "j < length xs" by simp
  show "map (\<lambda>x. if key x = k then f x else x) xs ! j = xs[i := f (xs ! i)] ! j"
  proof (cases "j = i")
    case True
    then show ?thesis using assms by simp
  next
    case False
    have "key (xs ! j) \<noteq> k"
    proof
      assume "key (xs ! j) = k"
      then have "map key xs ! j = map key xs ! i" using assms j by simp
      moreover have "j < length (map key xs)" "i < length (map key xs)" using assms j by simp_all
      ultimately have "j = i" using assms(1) by (simp only: nth_eq_iff_index_eq)
      with False show False by simp
    qed
    then show ?thesis using False j by simp
  qed
qed

lemma resolveUser_link:
  assumes "select_eq u_xsuaaSubject (deriveSubject p) (users st) = Inr None"
      and "find (\<lambda>u. u_email u = deriveEmail p) (users st) = Some ex"
  shows "resolveUser ev tks p st =
           (Inr (ex\<lparr>u_xsuaaSubject := nullable (deriveSubject p)\<rparr>),
            st\<lparr>users := map (\<lambda>u. if u_id u = u_id ex
                                    then u\<lparr>u_xsuaaSubject := nullable (deriveSubject p)\<rparr> else u)
                              (users st)\<rparr>)"
  using assms update_link_ok [OF assms(1), of "u_id ex"]
  by (simp add: resolveUser_def Let_def)

lemma find_Some_index:
  assumes "find P xs = Some x"
  shows "\<exists>i < length xs. xs ! i = x \<and> P x"
  using assms by (auto simp: find_Some_iff)

lemma deriveName_Str: "\<exists>n. deriveName p = Str n"
proof (cases "truthy (given_name p)")
  case True
  then show ?thesis by (simp add: deriveName_def)
next
  case False
  show ?thesis
  proof (cases "truthy (user_name p)")
    case True
    then obtain n where "user_name p = Str n" using truthy_Str by blast
    with False True show ?thesis by (simp add: deriveName_def js_or_def)
  next
    case u: False
    with False show ?thesis by (simp add: deriveName_def js_or_def first_split)
  qed
qed

lemma mintSession_frame:
  assumes "mintSession ev request usr st = (r, st1)"
  shows "users st1 = users st \<and> accounts st1 = accounts st \<and>
         (case r of
            Inl e \<Rightarrow> sessions st1 = sessions st
          | Inr (tok, ex) \<Rightarrow>
              \<exists>row. sessions st1 = sessions st @ [row] \<and> s_userId row = u_id usr \<and>
                    s_token row = tok \<and> ex = Date (s_expiresAt row))"
  using assms
  by (auto simp: mintSession_def insert_session_def session_row_def Let_def
           split: if_splits date.splits)

lemma reconcile_users_accounts:
  "users (snd (reconcile ev request tks p st)) = users (snd (resolveUser ev tks p st)) \<and>
   accounts (snd (reconcile ev request tks p st)) = accounts (snd (resolveUser ev tks p st))"
proof (cases "resolveUser ev tks p st")
  case (Pair r st1)
  show ?thesis
  proof (cases r)
    case (Inl e)
    with Pair show ?thesis by (simp add: reconcile_def)
  next
    case (Inr usr)
    obtain r2 st2 where m: "mintSession ev request usr st1 = (r2, st2)"
      by (cases "mintSession ev request usr st1")
    from mintSession_frame [OF m] Pair Inr m show ?thesis
      by (simp add: reconcile_def)
  qed
qed

lemma resolveUser_create:
  assumes "deriveSubject p = Str s"
      and "\<forall>u \<in> set (users st). u_xsuaaSubject u \<noteq> Some s"
      and "\<forall>u \<in> set (users st). u_email u \<noteq> deriveEmail p"
      and "\<forall>u \<in> set (users st). u_id u \<noteq> generateId 32 (rnd_userId ev)"
      and "\<forall>a \<in> set (accounts st). a_id a \<noteq> generateId 32 (rnd_accountId ev)"
      and "newDate (now_account ev + expiresInOrDefault (expires_in tks) * 1000) = Date expiry"
      and "newUser = \<lparr>u_id = generateId 32 (rnd_userId ev), u_name = toString (deriveName p),
                      u_email = deriveEmail p, u_emailVerified = True, u_image = None,
                      u_xsuaaSubject = Some s,
                      u_createdAt = now_user ev, u_updatedAt = now_user ev\<rparr>"
      and "newAccount = \<lparr>a_id = generateId 32 (rnd_accountId ev),
                         a_userId = generateId 32 (rnd_userId ev),
                         a_accountId = s, a_providerId = ''xsuaa'',
                         a_accessToken = nullable (access_token tks),
                         a_refreshToken = nullable (refresh_token tks),
                         a_accessTokenExpiresAt = Some expiry,
                         a_refreshTokenExpiresAt = None, a_scope = None, a_idToken = None,
                         a_password = None,
                         a_createdAt = now_user ev, a_updatedAt = now_user ev\<rparr>"
  shows "resolveUser ev tks p st =
           (Inr newUser, st\<lparr>users := users st @ [newUser], accounts := accounts st @ [newAccount]\<rparr>)"
proof -
  obtain n where n: "deriveName p = Str n" using deriveName_Str by blast
  have s1: "select_eq u_xsuaaSubject (deriveSubject p) (users st) = Inr None"
    using assms(1,2) by (auto simp: find_None_iff)
  have s2: "select_eq (\<lambda>u. Some (u_email u)) (Str (deriveEmail p)) (users st) = Inr None"
    using assms(3) by (auto simp: find_None_iff)
  have iu: "insert_user \<lparr>uv_id = generateId 32 (rnd_userId ev), uv_email = deriveEmail p,
                         uv_name = deriveName p, uv_emailVerified = True,
                         uv_xsuaaSubject = deriveSubject p, uv_createdAt = now_user ev,
                         uv_updatedAt = now_user ev\<rparr> st
              = Inr (st\<lparr>users := users st @ [newUser]\<rparr>)"
    using assms(1,2,3,4,7) n by (auto simp: insert_user_def user_row_def)
  have ia: "insert_account
              \<lparr>av_id = generateId 32 (rnd_accountId ev), av_userId = generateId 32 (rnd_userId ev),
               av_accountId = deriveSubject p, av_providerId = ''xsuaa'',
               av_accessToken = access_token tks, av_refreshToken = refresh_token tks,
               av_accessTokenExpiresAt = Date expiry,
               av_createdAt = now_user ev, av_updatedAt = now_user ev\<rparr>
              (st\<lparr>users := users st @ [newUser]\<rparr>)
            = Inr (st\<lparr>users := users st @ [newUser], accounts := accounts st @ [newAccount]\<rparr>)"
    using assms(1,5,7,8) by (auto simp: insert_account_def account_row_def)
  show ?thesis
    using s1 s2 iu ia n assms(1,6,7) by (simp add: resolveUser_def Let_def)
qed

lemma find_unique:
  assumes "y \<in> set xs" and "P y" and "\<forall>x \<in> set xs. P x \<longrightarrow> x = y"
  shows "find P xs = Some y"
  using assms
proof (induction xs)
  case Nil
  then show ?case by simp
next
  case (Cons a xs)
  show ?case
  proof (cases "P a")
    case True
    have "a = y" using Cons.prems(3) True by (simp del: find.simps)
    with True show ?thesis by simp
  next
    case False
    with Cons.prems(1,2) have "y \<in> set xs" by (cases "a = y") simp_all
    moreover have "\<forall>x \<in> set xs. P x \<longrightarrow> x = y" using Cons.prems(3) by simp
    ultimately have "find P xs = Some y" using Cons.IH Cons.prems(2) by blast
    with False show ?thesis by simp
  qed
qed

lemma filter_unique:
  assumes "distinct xs" and "y \<in> set xs" and "P y" and "\<forall>x \<in> set xs. P x \<longrightarrow> x = y"
  shows "filter P xs = [y]"
  using assms
proof (induction xs)
  case Nil
  then show ?case by simp
next
  case (Cons a xs)
  have rest: "\<forall>x \<in> set xs. P x \<longrightarrow> x = y" using Cons.prems(4) by simp
  have dist: "distinct xs" and nin: "a \<notin> set xs" using Cons.prems(1) by simp_all
  show ?case
  proof (cases "a = y")
    case True
    have "\<forall>z \<in> set xs. \<not> P z"
    proof
      fix z assume z: "z \<in> set xs"
      show "\<not> P z"
      proof
        assume "P z"
        with rest z have "z = y" by blast
        with z nin True show False by blast
      qed
    qed
    then have "filter P xs = []" by (simp only: filter_empty_conv)
    with True Cons.prems(3) show ?thesis by simp
  next
    case False
    have "\<not> P a"
    proof
      assume "P a"
      then have "a = y" using Cons.prems(4) by simp
      with False show False by simp
    qed
    moreover have "y \<in> set xs" using Cons.prems(2) False by simp
    then have "filter P xs = [y]" using Cons.IH dist Cons.prems(3) rest by blast
    ultimately show ?thesis by simp
  qed
qed

lemma key_unique:
  assumes "distinct (map key xs)" and "y \<in> set xs"
  shows "\<forall>x \<in> set xs. key x = key y \<longrightarrow> x = y"
proof (intro ballI impI)
  fix x assume "x \<in> set xs" and "key x = key y"
  moreover have "inj_on key (set xs)" using assms(1) by (simp add: distinct_map)
  ultimately show "x = y" using assms(2) by (blast dest: inj_onD)
qed

text \<open>The users table after the link step.\<close>

lemma linked_users:
  assumes ids: "distinct (map u_id us)" and emails: "distinct (map u_email us)"
      and mem: "lcl \<in> set us"
      and fresh: "\<forall>u \<in> set us. u_xsuaaSubject u \<noteq> Some s"
      and us1: "us1 = map (\<lambda>u. if u_id u = u_id lcl then u\<lparr>u_xsuaaSubject := Some s\<rparr> else u) us"
  shows "length us1 = length us"
    and "filter (\<lambda>u. u_email u = u_email lcl) us1 = [lcl\<lparr>u_xsuaaSubject := Some s\<rparr>]"
    and "find (\<lambda>u. u_xsuaaSubject u = Some s) us1 = Some (lcl\<lparr>u_xsuaaSubject := Some s\<rparr>)"
proof -
  let ?g = "\<lambda>u. if u_id u = u_id lcl then u\<lparr>u_xsuaaSubject := Some s\<rparr> else u"
  let ?l = "lcl\<lparr>u_xsuaaSubject := Some s\<rparr>"
  show "length us1 = length us" by (simp add: us1)
  have in1: "?l \<in> set us1" using mem unfolding us1 by force
  have e1: "map u_email us1 = map u_email us" unfolding us1 by (induction us) auto
  then have d1: "distinct (map u_email us1)" using emails by simp
  then have dd: "distinct us1" by (simp add: distinct_map)
  have el: "u_email ?l = u_email lcl" by simp
  have "\<forall>x \<in> set us1. u_email x = u_email ?l \<longrightarrow> x = ?l"
    using key_unique [OF d1 in1] .
  then have ue: "\<forall>x \<in> set us1. u_email x = u_email lcl \<longrightarrow> x = ?l"
    unfolding el .
  show "filter (\<lambda>u. u_email u = u_email lcl) us1 = [?l]"
    by (rule filter_unique [OF dd in1 el ue])
  have sl: "u_xsuaaSubject ?l = Some s" by simp
  have us: "\<forall>x \<in> set us1. u_xsuaaSubject x = Some s \<longrightarrow> x = ?l"
  proof (intro ballI impI)
    fix x assume x: "x \<in> set us1" and sx: "u_xsuaaSubject x = Some s"
    from x obtain u where u: "u \<in> set us" "x = ?g u" unfolding us1 by auto
    show "x = ?l"
    proof (cases "u_id u = u_id lcl")
      case True
      then have "u = lcl" using key_unique [OF ids mem] u(1) by blast
      with u show ?thesis by simp
    next
      case False
      with u have "x = u" by simp
      with fresh u(1) sx show ?thesis by blast
    qed
  qed
  show "find (\<lambda>u. u_xsuaaSubject u = Some s) us1 = Some ?l"
    by (rule find_unique [OF in1 sl us])
qed

lemma reconcile_undefined:
  "deriveSubject p = Undefined \<Longrightarrow> reconcile ev request tks p st = (Inl UndefinedValue, st)"
  by (simp add: reconcile_def resolveUser_undefined)

subsection \<open>Claims about the reconciliation\<close>

text \<open>
  C1 as stated fails: with sub and user_id both null the subject is null, not undefined.
  The lookups find nobody, a user row with the email null@sap.xsuaa is inserted, and only
  the insert of the account row throws, on its account id; the user row stays.
\<close>

theorem null_subject_writes_user:
  "\<not> truthy (sub null_claims) \<and> \<not> truthy (user_id null_claims) \<and>
   reconcile (env_of (Some creds0) null_claims) callback_request (tokens_of null_claims)
             null_claims local_store =
     (Inl NotNullViolation,
      \<lparr>users = [alice,
                \<lparr>u_id = generateId 32 (replicate 32 0), u_name = ''null'',
                 u_email = ''null@sap.xsuaa'', u_emailVerified = True, u_image = None,
                 u_xsuaaSubject = None, u_createdAt = 1000, u_updatedAt = 1000\<rparr>],
       sessions = [], accounts = []\<rparr>)"
proof -
  let ?ev = "env_of (Some creds0) null_claims"
  have s: "deriveSubject null_claims = Null"
    by (simp add: null_claims_def deriveSubject_def js_or_def)
  have e: "deriveEmail null_claims = ''null@sap.xsuaa''"
    by (simp add: deriveEmail_def s) (simp add: null_claims_def js_or_def)
  have n: "deriveName null_claims = Str ''null''"
    by (simp add: deriveName_def e) (simp add: null_claims_def js_or_def)
  have len: "length (generateId 32 (replicate 32 0)) = 32"
    by (simp add: generateId_def)
  have id: "generateId 32 (replicate 32 0) \<noteq> ''u1''"
  proof
    assume "generateId 32 (replicate 32 0) = ''u1''"
    then have "length (generateId 32 (replicate 32 0)) = length ''u1''" by (rule arg_cong)
    with len show False by simp
  qed
  have iu: "insert_user \<lparr>uv_id = generateId 32 (replicate 32 0), uv_email = ''null@sap.xsuaa'',
                          uv_name = Str ''null'', uv_emailVerified = True,
                          uv_xsuaaSubject = Null, uv_createdAt = 1000, uv_updatedAt = 1000\<rparr>
              local_store =
            Inr \<lparr>users = [alice,
                \<lparr>u_id = generateId 32 (replicate 32 0), u_name = ''null'',
                 u_email = ''null@sap.xsuaa'', u_emailVerified = True, u_image = None,
                 u_xsuaaSubject = None, u_createdAt = 1000, u_updatedAt = 1000\<rparr>],
                 sessions = [], accounts = []\<rparr>"
    using id by (simp add: insert_user_def user_row_def local_store_def alice_def)
  have r: "resolveUser ?ev (tokens_of null_claims) null_claims local_store =
     (Inl NotNullViolation,
      \<lparr>users = [alice,
                \<lparr>u_id = generateId 32 (replicate 32 0), u_name = ''null'',
                 u_email = ''null@sap.xsuaa'', u_emailVerified = True, u_image = None,
                 u_xsuaaSubject = None, u_createdAt = 1000, u_updatedAt = 1000\<rparr>],
       sessions = [], accounts = []\<rparr>)"
    using iu
    by (simp add: resolveUser_def Let_def s e n env_of_def insert_account_def newDate_def
          maxDate_def expiresInOrDefault_def tokens_of_def local_store_def alice_def)
  show ?thesis
    by (simp add: reconcile_def r) (simp add: null_claims_def)
qed

text \<open>
  C1, amended. When the user_id claim is missing and the sub claim is missing, null or
  empty, the subject is undefined and the reconciliation fails and writes nothing: no
  user row is inserted or updated, no account row and no session row is inserted. The
  handler has no test of its own for the subject: the first lookup sends the undefined
  subject as a query parameter, and the driver rejects it. The handler's catch turns the
  exception into the redirect with error callback_failed, the one response of every
  failed reconciliation.
\<close>

theorem missing_subject_fails_without_writes:
  assumes "\<not> truthy (sub p)" and "user_id p = Undefined"
  shows "reconcile ev request tks p st = (Inl UndefinedValue, st) \<and>
         (\<forall>xsuaa. xsuaaCredentials ev = Some xsuaa \<and> action request = Str ''callback'' \<and>
                  truthy (code request) \<and>
                  tokenEndpoint ev (tokenRequest ev xsuaa (code request)) = OkBody tks \<and>
                  id_token tks = Some p \<longrightarrow>
            xsuaa_GET ev request st =
              (Redirect (appUrl ev @ ''/login?error=callback_failed''), st,
               [tokenRequest ev xsuaa (code request)]))"
proof -
  have d: "deriveSubject p = Undefined"
    using assms by (simp add: deriveSubject_def js_or_def)
  have r: "reconcile ev request tks p st = (Inl UndefinedValue, st)"
    using d by (rule reconcile_undefined)
  show ?thesis
    using r by (auto simp: xsuaa_GET_def Let_def)
qed

theorem missing_subject_fails_without_writes_witness:
  "\<not> truthy (sub (claims_of Undefined Undefined)) \<and>
   user_id (claims_of Undefined Undefined) = Undefined \<and>
   xsuaa_GET (env_of (Some creds0) (claims_of Undefined Undefined)) callback_request local_store =
     (Redirect ''https://app/login?error=callback_failed'', local_store,
      [tokenRequest (env_of (Some creds0) (claims_of Undefined Undefined)) creds0 (Str ''abc'')])"
proof -
  have a: "\<not> truthy (sub (claims_of Undefined Undefined))"
    and b: "user_id (claims_of Undefined Undefined) = Undefined"
    by (simp_all add: claims_of_def)
  show ?thesis
    using a b
      missing_subject_fails_without_writes [OF a b,
        of "env_of (Some creds0) (claims_of Undefined Undefined)" callback_request
           "tokens_of (claims_of Undefined Undefined)" local_store]
    by (simp add: env_of_def callback_request_def tokens_of_def)
qed

text \<open>
  C9. In the link step (no user of the subject, a user \<open>ex\<close> of the derived email), with
  unique ids, the store after the step differs from the store before in one user row
  only, the row of \<open>ex\<close>, and there in the subject only: id, email, name, emailVerified,
  image and timestamps are those of \<open>ex\<close>. Accounts and sessions are untouched.
\<close>

theorem link_step_frame:
  assumes "distinct (map u_id (users st))"
      and "select_eq u_xsuaaSubject (deriveSubject p) (users st) = Inr None"
      and "find (\<lambda>u. u_email u = deriveEmail p) (users st) = Some ex"
      and "linked = ex\<lparr>u_xsuaaSubject := nullable (deriveSubject p)\<rparr>"
  shows "\<exists>i<length (users st). users st ! i = ex \<and>
           resolveUser ev tks p st = (Inr linked, st\<lparr>users := (users st)[i := linked]\<rparr>) \<and>
           u_id linked = u_id ex \<and> u_email linked = u_email ex \<and> u_name linked = u_name ex \<and>
           u_emailVerified linked = u_emailVerified ex \<and> u_image linked = u_image ex \<and>
           u_createdAt linked = u_createdAt ex \<and> u_updatedAt linked = u_updatedAt ex"
proof -
  from find_Some_index [OF assms(3)] obtain i where
    i: "i < length (users st)" "users st ! i = ex" by blast
  have "map (\<lambda>u. if u_id u = u_id ex then u\<lparr>u_xsuaaSubject := nullable (deriveSubject p)\<rparr> else u)
            (users st)
        = (users st)[i := (users st ! i)\<lparr>u_xsuaaSubject := nullable (deriveSubject p)\<rparr>]"
    using assms(1) i by (intro map_update_distinct) simp_all
  then have "resolveUser ev tks p st = (Inr linked, st\<lparr>users := (users st)[i := linked]\<rparr>)"
    using resolveUser_link [OF assms(2,3), of ev tks] i(2) assms(4) by simp
  with i assms(4) show ?thesis by auto
qed

theorem link_step_frame_witness:
  "distinct (map u_id (users team_store)) \<and>
   resolveUser (env_of (Some creds0) (claims_of (Str ''sap-42'') (Str ''alice@example.com'')))
               (tokens_of (claims_of (Str ''sap-42'') (Str ''alice@example.com'')))
               (claims_of (Str ''sap-42'') (Str ''alice@example.com'')) team_store =
     (Inr (alice\<lparr>u_xsuaaSubject := Some ''sap-42''\<rparr>),
      \<lparr>users = [bob, alice\<lparr>u_xsuaaSubject := Some ''sap-42''\<rparr>],
       sessions = [session_until 5000], accounts = []\<rparr>)"
proof -
  let ?p = "claims_of (Str ''sap-42'') (Str ''alice@example.com'')"
  have s: "deriveSubject ?p = Str ''sap-42''"
    by (simp add: claims_of_def deriveSubject_def js_or_def)
  have e: "deriveEmail ?p = ''alice@example.com''"
    by (simp add: deriveEmail_def claims_of_def js_or_def)
  have d: "distinct (map u_id (users team_store))"
    by (simp add: team_store_def alice_def bob_def)
  have n: "select_eq u_xsuaaSubject (deriveSubject ?p) (users team_store) = Inr None"
    by (simp add: s team_store_def alice_def bob_def)
  have f: "find (\<lambda>u. u_email u = deriveEmail ?p) (users team_store) = Some alice"
    by (simp add: e team_store_def alice_def bob_def)
  have ne: "bob \<noteq> alice" by (simp add: alice_def bob_def)
  from link_step_frame [OF d n f refl, of "env_of (Some creds0) ?p" "tokens_of ?p"]
  obtain i where i: "i < length (users team_store)" "users team_store ! i = alice"
    and r: "resolveUser (env_of (Some creds0) ?p) (tokens_of ?p) ?p team_store =
             (Inr (alice\<lparr>u_xsuaaSubject := nullable (deriveSubject ?p)\<rparr>),
              team_store\<lparr>users := (users team_store)
                 [i := alice\<lparr>u_xsuaaSubject := nullable (deriveSubject ?p)\<rparr>]\<rparr>)"
    by blast
  from i ne have "i = 1"
    by (cases i) (simp_all add: team_store_def)
  with r d show ?thesis
    by (simp add: s team_store_def)
qed

text \<open>
  C2. In a store whose ids and emails are unique, with a user \<open>lcl\<close> of email \<open>e\<close> and
  no user of subject \<open>s\<close>, a reconciliation with claims giving \<open>e\<close> and \<open>s\<close> leaves
  the number of user rows unchanged and exactly one row for \<open>e\<close>: \<open>lcl\<close> with subject
  \<open>s\<close>. Every later reconciliation with subject \<open>s\<close> resolves to that row by its
  subject, changes neither the users nor the accounts, and a session it creates belongs
  to the id of \<open>lcl\<close>.
\<close>

theorem idempotent_linking:
  assumes ids: "distinct (map u_id (users st))"
      and emails: "distinct (map u_email (users st))"
      and subj: "deriveSubject p = Str s"
      and mem: "lcl \<in> set (users st)"
      and eml: "u_email lcl = deriveEmail p"
      and fresh: "\<forall>u \<in> set (users st). u_xsuaaSubject u \<noteq> Some s"
      and st1: "st1 = snd (reconcile ev request tks p st)"
      and linked: "linked = lcl\<lparr>u_xsuaaSubject := Some s\<rparr>"
  shows "length (users st1) = length (users st) \<and>
         filter (\<lambda>u. u_email u = deriveEmail p) (users st1) = [linked] \<and>
         accounts st1 = accounts st \<and>
         (\<forall>ev2 request2 tks2 p2. deriveSubject p2 = Str s \<longrightarrow>
            resolveUser ev2 tks2 p2 st1 = (Inr linked, st1) \<and>
            users (snd (reconcile ev2 request2 tks2 p2 st1)) = users st1 \<and>
            accounts (snd (reconcile ev2 request2 tks2 p2 st1)) = accounts st1 \<and>
            (\<forall>tok ex st2. reconcile ev2 request2 tks2 p2 st1 = (Inr (tok, ex), st2) \<longrightarrow>
               (\<exists>row. sessions st2 = sessions st1 @ [row] \<and> s_userId row = u_id lcl \<and>
                      s_token row = tok)))"
proof -
  let ?us1 = "map (\<lambda>u. if u_id u = u_id lcl then u\<lparr>u_xsuaaSubject := Some s\<rparr> else u) (users st)"
  have f: "find (\<lambda>u. u_email u = deriveEmail p) (users st) = Some lcl"
  proof (rule find_unique [OF mem])
    show "u_email lcl = deriveEmail p" by (rule eml)
    show "\<forall>x \<in> set (users st). u_email x = deriveEmail p \<longrightarrow> x = lcl"
      using key_unique [OF emails mem] unfolding eml .
  qed
  have n: "select_eq u_xsuaaSubject (deriveSubject p) (users st) = Inr None"
    using fresh by (simp add: subj find_None_iff)
  have r: "resolveUser ev tks p st = (Inr linked, st\<lparr>users := ?us1\<rparr>)"
    using resolveUser_link [OF n f, of ev tks] by (simp add: subj linked)
  have u1: "users st1 = ?us1" and a1: "accounts st1 = accounts st"
    using reconcile_users_accounts [of ev request tks p st] r by (simp_all add: st1)
  note lu = linked_users [OF ids emails mem fresh u1]
  have second: "resolveUser ev2 tks2 p2 st1 = (Inr linked, st1) \<and>
            users (snd (reconcile ev2 request2 tks2 p2 st1)) = users st1 \<and>
            accounts (snd (reconcile ev2 request2 tks2 p2 st1)) = accounts st1 \<and>
            (\<forall>tok ex st2. reconcile ev2 request2 tks2 p2 st1 = (Inr (tok, ex), st2) \<longrightarrow>
               (\<exists>row. sessions st2 = sessions st1 @ [row] \<and> s_userId row = u_id lcl \<and>
                      s_token row = tok))"
    if p2: "deriveSubject p2 = Str s" for ev2 request2 tks2 p2
  proof -
    have "select_eq u_xsuaaSubject (deriveSubject p2) (users st1) = Inr (Some linked)"
      using lu(3) by (simp add: p2 linked)
    then have r2: "resolveUser ev2 tks2 p2 st1 = (Inr linked, st1)"
      by (rule resolveUser_found)
    have ua: "users (snd (reconcile ev2 request2 tks2 p2 st1)) = users st1 \<and>
              accounts (snd (reconcile ev2 request2 tks2 p2 st1)) = accounts st1"
      using reconcile_users_accounts [of ev2 request2 tks2 p2 st1] r2 by simp
    have ss: "\<exists>row. sessions st2 = sessions st1 @ [row] \<and> s_userId row = u_id lcl \<and>
                    s_token row = tok"
      if "reconcile ev2 request2 tks2 p2 st1 = (Inr (tok, ex), st2)" for tok ex st2
    proof -
      from that r2 have "mintSession ev2 request2 linked st1 = (Inr (tok, ex), st2)"
        by (simp add: reconcile_def)
      from mintSession_frame [OF this] show ?thesis by (auto simp: linked)
    qed
    from r2 ua ss show ?thesis by blast
  qed
  from lu(1,2) a1 second show ?thesis by (simp add: eml linked)
qed

theorem idempotent_linking_witness:
  "distinct (map u_id (users local_store)) \<and> distinct (map u_email (users local_store)) \<and>
   alice \<in> set (users local_store) \<and>
   filter (\<lambda>u. u_email u = ''alice@example.com'')
     (users (snd (reconcile (env_of (Some creds0) (claims_of (Str ''sap-42'') (Str ''alice@example.com'')))
                    callback_request
                    (tokens_of (claims_of (Str ''sap-42'') (Str ''alice@example.com'')))
                    (claims_of (Str ''sap-42'') (Str ''alice@example.com'')) local_store)))
     = [alice\<lparr>u_xsuaaSubject := Some ''sap-42''\<rparr>] \<and>
   fst (resolveUser (env_of (Some creds0) (claims_of (Str ''sap-42'') Undefined))
          (tokens_of (claims_of (Str ''sap-42'') Undefined))
          (claims_of (Str ''sap-42'') Undefined)
          (snd (reconcile (env_of (Some creds0) (claims_of (Str ''sap-42'') (Str ''alice@example.com'')))
                    callback_request
                    (tokens_of (claims_of (Str ''sap-42'') (Str ''alice@example.com'')))
                    (claims_of (Str ''sap-42'') (Str ''alice@example.com'')) local_store)))
     = Inr (alice\<lparr>u_xsuaaSubject := Some ''sap-42''\<rparr>)"
proof -
  let ?p = "claims_of (Str ''sap-42'') (Str ''alice@example.com'')"
  let ?p2 = "claims_of (Str ''sap-42'') Undefined"
  let ?ev = "env_of (Some creds0) ?p"
  have s: "deriveSubject ?p = Str ''sap-42''"
    by (simp add: claims_of_def deriveSubject_def js_or_def)
  have s2: "deriveSubject ?p2 = Str ''sap-42''"
    by (simp add: claims_of_def deriveSubject_def js_or_def)
  have e: "deriveEmail ?p = ''alice@example.com''"
    by (simp add: deriveEmail_def claims_of_def js_or_def)
  have ids: "distinct (map u_id (users local_store))"
    and emails: "distinct (map u_email (users local_store))"
    and mem: "alice \<in> set (users local_store)"
    by (simp_all add: local_store_def)
  have eml: "u_email alice = deriveEmail ?p" by (simp add: e alice_def)
  have fresh: "\<forall>u \<in> set (users local_store). u_xsuaaSubject u \<noteq> Some ''sap-42''"
    by (simp add: local_store_def alice_def)
  note th = idempotent_linking [OF ids emails s mem eml fresh refl refl,
      of ?ev callback_request "tokens_of ?p"]
  from th have
    "filter (\<lambda>u. u_email u = deriveEmail ?p)
       (users (snd (reconcile ?ev callback_request (tokens_of ?p) ?p local_store)))
     = [alice\<lparr>u_xsuaaSubject := Some ''sap-42''\<rparr>]"
    by blast
  moreover from th s2 have
    "resolveUser (env_of (Some creds0) ?p2) (tokens_of ?p2) ?p2
       (snd (reconcile ?ev callback_request (tokens_of ?p) ?p local_store))
     = (Inr (alice\<lparr>u_xsuaaSubject := Some ''sap-42''\<rparr>),
        snd (reconcile ?ev callback_request (tokens_of ?p) ?p local_store))"
    by blast
  ultimately show ?thesis
    using ids emails mem by (simp add: e)
qed

text \<open>
  C3 as stated fails: a token response with expires_in 0 gives an account row whose
  access token expires 3600 seconds after the clock reading 1001, not at the reading.
\<close>

theorem zero_expires_in_gets_default:
  "expires_in ((tokens_of (claims_of (Str ''sap-43'') Undefined))\<lparr>expires_in := Some 0\<rparr>) = Some 0 \<and>
   now_account (env_of (Some creds0) (claims_of (Str ''sap-43'') Undefined)) = 1001 \<and>
   map a_accessTokenExpiresAt
     (accounts (snd (resolveUser (env_of (Some creds0) (claims_of (Str ''sap-43'') Undefined))
                       ((tokens_of (claims_of (Str ''sap-43'') Undefined))\<lparr>expires_in := Some 0\<rparr>)
                       (claims_of (Str ''sap-43'') Undefined) local_store)))
     = [Some 3601001]"
proof -
  let ?p = "claims_of (Str ''sap-43'') Undefined"
  let ?ev = "env_of (Some creds0) ?p"
  let ?tks = "(tokens_of ?p)\<lparr>expires_in := Some 0\<rparr>"
  have s: "deriveSubject ?p = Str ''sap-43''"
    by (simp add: claims_of_def deriveSubject_def js_or_def)
  have e: "deriveEmail ?p = ''sap-43@sap.xsuaa''"
    by (simp add: deriveEmail_def s) (simp add: claims_of_def js_or_def)
  have a: "\<forall>u \<in> set (users local_store). u_xsuaaSubject u \<noteq> Some ''sap-43''"
    by (simp add: local_store_def alice_def)
  have b: "\<forall>u \<in> set (users local_store). u_email u \<noteq> deriveEmail ?p"
    by (simp add: e local_store_def alice_def)
  have len: "length (generateId 32 (rnd_userId ?ev)) = 32"
    by (simp add: generateId_def env_of_def)
  have "generateId 32 (rnd_userId ?ev) \<noteq> ''u1''"
  proof
    assume "generateId 32 (rnd_userId ?ev) = ''u1''"
    then have "length (generateId 32 (rnd_userId ?ev)) = length ''u1''" by (rule arg_cong)
    with len show False by simp
  qed
  then have c: "\<forall>u \<in> set (users local_store). u_id u \<noteq> generateId 32 (rnd_userId ?ev)"
    by (simp add: local_store_def alice_def)
  have d: "\<forall>a \<in> set (accounts local_store). a_id a \<noteq> generateId 32 (rnd_accountId ?ev)"
    by (simp add: local_store_def)
  have t: "newDate (now_account ?ev + expiresInOrDefault (expires_in ?tks) * 1000) = Date 3601001"
    by (simp add: newDate_def maxDate_def expiresInOrDefault_def env_of_def)
  show ?thesis
    using resolveUser_create [OF s a b c d t refl refl]
    by (simp add: env_of_def local_store_def)
qed

text \<open>
  C3, amended. With a subject \<open>s\<close>, no user of that subject and no user of the derived
  email, generated ids that are not in use, and an expiry within the range of a Date, the
  reconciliation appends exactly one user row, with emailVerified true, and exactly one
  account row of provider xsuaa and account id \<open>s\<close>, carrying the access and refresh
  tokens; the access token expires at the clock reading plus expires_in seconds when
  expires_in is given and not zero, and at the reading plus 3600 seconds when it is
  missing or zero.
\<close>

theorem fresh_provisioning:
  assumes "deriveSubject p = Str s"
      and "\<forall>u \<in> set (users st). u_xsuaaSubject u \<noteq> Some s"
      and "\<forall>u \<in> set (users st). u_email u \<noteq> deriveEmail p"
      and "\<forall>u \<in> set (users st). u_id u \<noteq> generateId 32 (rnd_userId ev)"
      and "\<forall>a \<in> set (accounts st). a_id a \<noteq> generateId 32 (rnd_accountId ev)"
      and "secs = (case expires_in tks of None \<Rightarrow> 3600 | Some n \<Rightarrow> if n = 0 then 3600 else n)"
      and "- maxDate \<le> now_account ev + secs * 1000"
      and "now_account ev + secs * 1000 \<le> maxDate"
      and "newUser = \<lparr>u_id = generateId 32 (rnd_userId ev), u_name = toString (deriveName p),
                      u_email = deriveEmail p, u_emailVerified = True, u_image = None,
                      u_xsuaaSubject = Some s,
                      u_createdAt = now_user ev, u_updatedAt = now_user ev\<rparr>"
      and "newAccount = \<lparr>a_id = generateId 32 (rnd_accountId ev),
                         a_userId = generateId 32 (rnd_userId ev),
                         a_accountId = s, a_providerId = ''xsuaa'',
                         a_accessToken = nullable (access_token tks),
                         a_refreshToken = nullable (refresh_token tks),
                         a_accessTokenExpiresAt = Some (now_account ev + secs * 1000),
                         a_refreshTokenExpiresAt = None, a_scope = None, a_idToken = None,
                         a_password = None,
                         a_createdAt = now_user ev, a_updatedAt = now_user ev\<rparr>"
  shows "resolveUser ev tks p st =
           (Inr newUser, st\<lparr>users := users st @ [newUser], accounts := accounts st @ [newAccount]\<rparr>) \<and>
         users (snd (reconcile ev request tks p st)) = users st @ [newUser] \<and>
         accounts (snd (reconcile ev request tks p st)) = accounts st @ [newAccount]"
proof -
  have t: "newDate (now_account ev + expiresInOrDefault (expires_in tks) * 1000)
             = Date (now_account ev + secs * 1000)"
    using assms(6,7,8) by (simp add: newDate_def expiresInOrDefault_def)
  have r: "resolveUser ev tks p st =
           (Inr newUser, st\<lparr>users := users st @ [newUser], accounts := accounts st @ [newAccount]\<rparr>)"
    by (rule resolveUser_create [OF assms(1-5) t assms(9,10)])
  with reconcile_users_accounts [of ev request tks p st] show ?thesis by simp
qed

theorem fresh_provisioning_witness:
  "deriveSubject (claims_of (Str ''sap-43'') Undefined) = Str ''sap-43'' \<and>
   resolveUser (env_of (Some creds0) (claims_of (Str ''sap-43'') Undefined))
               (tokens_of (claims_of (Str ''sap-43'') Undefined))
               (claims_of (Str ''sap-43'') Undefined) local_store =
     (Inr \<lparr>u_id = generateId 32 (replicate 32 0), u_name = ''sap-43'',
           u_email = ''sap-43@sap.xsuaa'', u_emailVerified = True, u_image = None,
           u_xsuaaSubject = Some ''sap-43'', u_createdAt = 1000, u_updatedAt = 1000\<rparr>,
      \<lparr>users = [alice,
                \<lparr>u_id = generateId 32 (replicate 32 0), u_name = ''sap-43'',
                 u_email = ''sap-43@sap.xsuaa'', u_emailVerified = True, u_image = None,
                 u_xsuaaSubject = Some ''sap-43'', u_createdAt = 1000, u_updatedAt = 1000\<rparr>],
       sessions = [],
       accounts = [\<lparr>a_id = generateId 32 (replicate 32 1),
                    a_userId = generateId 32 (replicate 32 0),
                    a_accountId = ''sap-43'', a_providerId = ''xsuaa'',
                    a_accessToken = Some ''at'', a_refreshToken = Some ''rt'',
                    a_accessTokenExpiresAt = Some 3601001,
                    a_refreshTokenExpiresAt = None, a_scope = None, a_idToken = None,
                    a_password = None, a_createdAt = 1000, a_updatedAt = 1000\<rparr>]\<rparr>)"
proof -
  let ?p = "claims_of (Str ''sap-43'') Undefined"
  let ?ev = "env_of (Some creds0) ?p"
  have s: "deriveSubject ?p = Str ''sap-43''"
    by (simp add: claims_of_def deriveSubject_def js_or_def)
  have e: "deriveEmail ?p = ''sap-43@sap.xsuaa''"
    by (simp add: deriveEmail_def s) (simp add: claims_of_def js_or_def)
  have n: "deriveName ?p = Str ''sap-43''"
    by (simp add: deriveName_def e) (simp add: claims_of_def js_or_def)
  have a: "\<forall>u \<in> set (users local_store). u_xsuaaSubject u \<noteq> Some ''sap-43''"
    by (simp add: local_store_def alice_def)
  have b: "\<forall>u \<in> set (users local_store). u_email u \<noteq> deriveEmail ?p"
    by (simp add: e local_store_def alice_def)
  have len: "length (generateId 32 (rnd_userId ?ev)) = 32"
    by (simp add: generateId_def env_of_def)
  have "generateId 32 (rnd_userId ?ev) \<noteq> ''u1''"
  proof
    assume "generateId 32 (rnd_userId ?ev) = ''u1''"
    then have "length (generateId 32 (rnd_userId ?ev)) = length ''u1''" by (rule arg_cong)
    with len show False by simp
  qed
  then have c: "\<forall>u \<in> set (users local_store). u_id u \<noteq> generateId 32 (rnd_userId ?ev)"
    by (simp add: local_store_def alice_def)
  have d: "\<forall>a \<in> set (accounts local_store). a_id a \<noteq> generateId 32 (rnd_accountId ?ev)"
    by (simp add: local_store_def)
  have x: "(3600::int) = (case expires_in (tokens_of ?p) of None \<Rightarrow> 3600
                          | Some n \<Rightarrow> if n = 0 then 3600 else n)"
    by (simp add: tokens_of_def)
  have lo: "- maxDate \<le> now_account ?ev + 3600 * 1000"
    and hi: "now_account ?ev + 3600 * 1000 \<le> maxDate"
    by (simp_all add: maxDate_def env_of_def)
  show ?thesis
    using s fresh_provisioning [OF s a b c d x lo hi refl refl, of callback_request]
    by (simp add: e n) (simp add: env_of_def tokens_of_def local_store_def)
qed

text \<open>
  C5. The first SSO login of an existing local user, linked by email, succeeds (the
  session cookie is set) and leaves the accounts table empty: the link branch inserts no
  account row, where the create branch inserts one.
\<close>

theorem linked_login_writes_no_account:
  "fst (xsuaa_GET (env_of (Some creds0) (claims_of (Str ''sap-42'') (Str ''alice@example.com'')))
                  callback_request local_store) =
     RedirectWithCookie ''https://app/dashboard''
       \<lparr>c_name = ''better-auth.session_token'', c_value = generateId 32 (replicate 32 2),
        c_httpOnly = True, c_secure = True, c_sameSite = ''lax'', c_expires = Date 604801002,
        c_path = ''/''\<rparr> \<and>
   fst (snd (xsuaa_GET (env_of (Some creds0) (claims_of (Str ''sap-42'') (Str ''alice@example.com'')))
                       callback_request local_store)) =
     \<lparr>users = [alice\<lparr>u_xsuaaSubject := Some ''sap-42''\<rparr>],
      sessions = [\<lparr>s_id = generateId 32 (replicate 32 3), s_userId = ''u1'',
                   s_token = generateId 32 (replicate 32 2), s_expiresAt = 604801002,
                   s_ipAddress = None, s_userAgent = Some ''test'',
                   s_createdAt = 1003, s_updatedAt = 1004\<rparr>],
      accounts = []\<rparr>"
proof -
  let ?p = "claims_of (Str ''sap-42'') (Str ''alice@example.com'')"
  let ?ev = "env_of (Some creds0) ?p"
  have s: "deriveSubject ?p = Str ''sap-42''"
    by (simp add: claims_of_def deriveSubject_def js_or_def)
  have e: "deriveEmail ?p = ''alice@example.com''"
    by (simp add: deriveEmail_def claims_of_def js_or_def)
  have r: "resolveUser ?ev (tokens_of ?p) ?p local_store =
             (Inr (alice\<lparr>u_xsuaaSubject := Some ''sap-42''\<rparr>),
              \<lparr>users = [alice\<lparr>u_xsuaaSubject := Some ''sap-42''\<rparr>], sessions = [], accounts = []\<rparr>)"
    by (simp add: resolveUser_def Let_def s e local_store_def update_xsuaaSubject_def)
       (simp add: alice_def)
  have m: "reconcile ?ev callback_request (tokens_of ?p) ?p local_store =
             (Inr (generateId 32 (replicate 32 2), Date 604801002),
              \<lparr>users = [alice\<lparr>u_xsuaaSubject := Some ''sap-42''\<rparr>],
               sessions = [\<lparr>s_id = generateId 32 (replicate 32 3), s_userId = ''u1'',
                   s_token = generateId 32 (replicate 32 2), s_expiresAt = 604801002,
                   s_ipAddress = None, s_userAgent = Some ''test'',
                   s_createdAt = 1003, s_updatedAt = 1004\<rparr>],
               accounts = []\<rparr>)"
    by (simp add: reconcile_def r mintSession_def Let_def insert_session_def session_row_def
          js_or_def newDate_def maxDate_def)
       (simp add: env_of_def callback_request_def alice_def)
  have t: "tokenEndpoint ?ev rq = OkBody (tokens_of ?p)" for rq
    by (simp add: env_of_def)
  have i: "id_token (tokens_of ?p) = Some ?p" by (simp add: tokens_of_def)
  have c: "xsuaaCredentials ?ev = Some creds0" "nodeEnv ?ev = Some ''production''"
    "appUrl ?ev = ''https://app''"
    by (simp_all add: env_of_def)
  have q: "action callback_request = Str ''callback''" "truthy (code callback_request)"
    by (simp_all add: callback_request_def)
  show ?thesis
    by (simp add: xsuaa_GET_def c q t i m Let_def)
qed

subsection \<open>Claims about the handler\<close>

text \<open>
  C10 as stated fails: without XSUAA credentials the handler redirects to the login page
  before it looks at the action.
\<close>

theorem invalid_action_unconfigured_redirects:
  "action (callback_request\<lparr>action := Null\<rparr>) \<noteq> Str ''login'' \<and>
   action (callback_request\<lparr>action := Null\<rparr>) \<noteq> Str ''callback'' \<and>
   xsuaa_GET (env_of None (claims_of Undefined Undefined)) (callback_request\<lparr>action := Null\<rparr>)
             local_store =
     (Redirect ''https://app/login?error=xsuaa_not_configured'', local_store, [])"
  by (simp add: xsuaa_GET_def env_of_def callback_request_def)

text \<open>
  C10, amended. For an action that is neither login nor callback (a missing one too), the
  handler answers with status 400 and the JSON error 'Invalid action' when the XSUAA
  credentials are available, and with the redirect to the login page with error
  xsuaa_not_configured when they are not; in both cases the store is unchanged and no
  request is sent to the token endpoint.
\<close>

theorem invalid_action_response:
  assumes "action request \<noteq> Str ''login''" and "action request \<noteq> Str ''callback''"
  shows "xsuaa_GET ev request st =
           (if xsuaaCredentials ev = None
              then Redirect (appUrl ev @ ''/login?error=xsuaa_not_configured'')
            else JsonError 400 ''Invalid action'', st, [])"
  using assms by (simp add: xsuaa_GET_def split: option.splits)

theorem invalid_action_response_witness:
  "action (callback_request\<lparr>action := Str ''logout''\<rparr>) \<noteq> Str ''login'' \<and>
   action (callback_request\<lparr>action := Str ''logout''\<rparr>) \<noteq> Str ''callback'' \<and>
   xsuaa_GET (env_of (Some creds0) (claims_of Undefined Undefined))
             (callback_request\<lparr>action := Str ''logout''\<rparr>) local_store =
     (JsonError 400 ''Invalid action'', local_store, [])"
proof -
  have a: "action (callback_request\<lparr>action := Str ''logout''\<rparr>) \<noteq> Str ''login''"
    and b: "action (callback_request\<lparr>action := Str ''logout''\<rparr>) \<noteq> Str ''callback''"
    by simp_all
  show ?thesis
    using a b invalid_action_response [OF a b, of "env_of (Some creds0) (claims_of Undefined Undefined)"
        local_store]
    by (simp add: env_of_def)
qed

end
